theory Spec2Isabelle
  imports Main "HOL-Library.Word" "HOL-Library.Sublist"
begin

section \<open>The xhr-polling transport of go-socket.io\<close>

text \<open>
  A shallow embedding of \<^verbatim>\<open>socketio/transport_xhrpolling.go\<close>. The socket is a
  record of its four fields. Everything the socket does to the outside (the hijack, the
  deadlines, the reads, writes and close of the hijacked connection) is appended to a
  trace of events, and what the outside answers (the result of \<^verbatim>\<open>Hijack\<close>, of
  \<^verbatim>\<open>time.Now\<close>, of the connection's \<^verbatim>\<open>Read\<close>, of \<^verbatim>\<open>buf.WriteTo\<close> and of the
  connection's \<^verbatim>\<open>Close\<close>) is an argument of the operation, so that a theorem holds for
  every behaviour of the connection. A run-time panic of Go is a value of the result.
\<close>

subsection \<open>Errors, panics and results\<close>

text \<open>
  Modelled from the spec: the error values \<^verbatim>\<open>ErrConnected\<close> (AlreadyConnected) and
  \<^verbatim>\<open>ErrNotConnected\<close> (NotConnected) are declared in another file of the package.
  \<open>ErrOther\<close> stands for every error of the underlying connection or of the HTTP layer.
\<close>

datatype error = ErrConnected | ErrNotConnected | ErrOther string

datatype panic = TypeAssertion | NilDereference

datatype 'a outcome = Return 'a | Panic panic

subsection \<open>Time\<close>

type_synonym Duration = "64 word"

type_synonym Time = int

definition Time_Add :: "Time \<Rightarrow> Duration \<Rightarrow> Time" where
  "Time_Add tm d = tm + sint d"

subsection \<open>The transport\<close>

record xhrPollingTransport =
  rtimeout :: Duration
  wtimeout :: Duration

definition NewXHRPollingTransport :: "Duration \<Rightarrow> Duration \<Rightarrow> xhrPollingTransport" where
  "NewXHRPollingTransport rt wt = \<lparr>rtimeout = rt, wtimeout = wt\<rparr>"

definition Resource :: "xhrPollingTransport \<Rightarrow> string" where
  "Resource tr = ''xhr-polling''"

subsection \<open>Connections, requests and the socket\<close>

text \<open>
  A connection is known by its identity and by its dynamic type, which the type
  assertion \<^verbatim>\<open>s.rwc.(*net.TCPConn)\<close> inspects. \<open>None\<close> is the nil interface value.
\<close>

datatype conn_type = TCPConn | OtherConn

datatype conn = Conn (conn_id: nat) (conn_type: conn_type)

text \<open>
  The request is read only through \<^verbatim>\<open>req.Header.Get("Origin")\<close>. A header is Go's
  \<^verbatim>\<open>map[string][]string\<close>; \<^verbatim>\<open>Get\<close> returns the first value stored under the key and
  the empty string when there is none (the key \<^verbatim>\<open>"Origin"\<close> is already canonical).
\<close>

record Request =
  Header :: "string \<rightharpoonup> string list"

definition Header_Get :: "(string \<rightharpoonup> string list) \<Rightarrow> string \<Rightarrow> string" where
  "Header_Get h k = (case h k of None \<Rightarrow> [] | Some [] \<Rightarrow> [] | Some (v # _) \<Rightarrow> v)"

text \<open>The field \<^verbatim>\<open>t\<close> of the source is \<open>s_t\<close> here.\<close>

record xhrPollingSocket =
  s_t :: xhrPollingTransport
  rwc :: "conn option"
  req :: "Request option"
  connected :: bool

definition newSocket :: "xhrPollingTransport \<Rightarrow> xhrPollingSocket" where
  "newSocket tr = \<lparr>s_t = tr, rwc = None, req = None, connected = False\<rparr>"

definition String :: "xhrPollingSocket \<Rightarrow> string" where
  "String s = Resource (s_t s)"

definition Transport :: "xhrPollingSocket \<Rightarrow> xhrPollingTransport" where
  "Transport s = s_t s"

subsection \<open>The world: the socket and the trace of its calls to the outside\<close>

datatype event =
    Hijack
  | SetReadDeadline conn Time
  | SetWriteDeadline conn Time
  | ConnRead conn nat
  | ConnWrite conn string
  | ConnClose conn

record world =
  sock :: xhrPollingSocket
  trace :: "event list"

text \<open>
  The \<^verbatim>\<open>http.ResponseWriter\<close> handed to \<^verbatim>\<open>accept\<close>: either it does not implement
  \<^verbatim>\<open>http.Hijacker\<close> (the type assertion panics), or it does and \<^verbatim>\<open>Hijack()\<close> returns
  the given connection and error.
\<close>

datatype ResponseWriter = NotHijacker | Hijacker "conn option" "error option"

subsection \<open>accept\<close>

text \<open>The type assertion \<^verbatim>\<open>s.rwc.(*net.TCPConn)\<close>; \<open>None\<close> when it panics.\<close>

definition as_TCPConn :: "conn option \<Rightarrow> conn option" where
  "as_TCPConn c =
     (case c of
        None \<Rightarrow> None
      | Some k \<Rightarrow> if conn_type k = TCPConn then Some k else None)"

text \<open>Lines 61 to 63 and 64 to 66; \<open>None\<close> when the type assertion panics.\<close>

definition apply_rtimeout :: "Time \<Rightarrow> world \<Rightarrow> world option" where
  "apply_rtimeout now w =
     (if rtimeout (s_t (sock w)) \<noteq> 0 then
        (case as_TCPConn (rwc (sock w)) of
           None \<Rightarrow> None
         | Some k \<Rightarrow>
             Some (w\<lparr>trace := trace w @
               [SetReadDeadline k (Time_Add now (rtimeout (s_t (sock w))))]\<rparr>))
      else Some w)"

definition apply_wtimeout :: "Time \<Rightarrow> world \<Rightarrow> world option" where
  "apply_wtimeout now w =
     (if wtimeout (s_t (sock w)) \<noteq> 0 then
        (case as_TCPConn (rwc (sock w)) of
           None \<Rightarrow> None
         | Some k \<Rightarrow>
             Some (w\<lparr>trace := trace w @
               [SetWriteDeadline k (Time_Add now (wtimeout (s_t (sock w))))]\<rparr>))
      else Some w)"

text \<open>
  \<open>proceed\<close> is the continuation, a function on the whole world: it may do anything,
  also to this socket. \<open>now_r\<close> and \<open>now_w\<close> are what \<^verbatim>\<open>time.Now()\<close> returns at
  its two call sites.
\<close>

definition accept ::
  "ResponseWriter \<Rightarrow> Request option \<Rightarrow> (world \<Rightarrow> world) \<Rightarrow> Time \<Rightarrow> Time \<Rightarrow> world
     \<Rightarrow> error option outcome \<times> world" where
  "accept hw rq proceed now_r now_w w =
     (if connected (sock w) then (Return (Some ErrConnected), w)
      else
        let w1 = w\<lparr>sock := (sock w)\<lparr>req := rq\<rparr>\<rparr> in
        (case hw of
           NotHijacker \<Rightarrow> (Panic TypeAssertion, w1)
         | Hijacker c err \<Rightarrow>
             let w2 = w1\<lparr>sock := (sock w1)\<lparr>rwc := c\<rparr>, trace := trace w1 @ [Hijack]\<rparr> in
             (case err of
                Some e \<Rightarrow> (Return (Some e), w2)
              | None \<Rightarrow>
                  (case apply_rtimeout now_r w2 of
                     None \<Rightarrow> (Panic TypeAssertion, w2)
                   | Some w3 \<Rightarrow>
                       (case apply_wtimeout now_w w3 of
                          None \<Rightarrow> (Panic TypeAssertion, w3)
                        | Some w4 \<Rightarrow>
                            (Return None,
                             proceed (w4\<lparr>sock := (sock w4)\<lparr>connected := True\<rparr>\<rparr>)))))))"

subsection \<open>Read and Close\<close>

text \<open>
  \<open>rres\<close> is what the connection's \<^verbatim>\<open>Read\<close> answers: the buffer as it leaves it, the
  count and the error.
\<close>

definition Read ::
  "string \<Rightarrow> string \<times> int \<times> error option \<Rightarrow> world
     \<Rightarrow> (string \<times> int \<times> error option) outcome \<times> world" where
  "Read p rres w =
     (if \<not> connected (sock w) then (Return (p, 0, Some ErrNotConnected), w)
      else
        (case rwc (sock w) of
           None \<Rightarrow> (Panic NilDereference, w)
         | Some c \<Rightarrow> (Return rres, w\<lparr>trace := trace w @ [ConnRead c (length p)]\<rparr>)))"

text \<open>\<open>cres\<close> is what the connection's \<^verbatim>\<open>Close\<close> answers.\<close>

definition Close :: "error option \<Rightarrow> world \<Rightarrow> error option outcome \<times> world" where
  "Close cres w =
     (if \<not> connected (sock w) then (Return (Some ErrNotConnected), w)
      else
        let w1 = w\<lparr>sock := (sock w)\<lparr>connected := False\<rparr>\<rparr> in
        (case rwc (sock w1) of
           None \<Rightarrow> (Panic NilDereference, w1)
         | Some c \<Rightarrow> (Return cres, w1\<lparr>trace := trace w1 @ [ConnClose c]\<rparr>)))"

subsection \<open>Write\<close>

text \<open>
  \<^verbatim>\<open>%d\<close> of \<^verbatim>\<open>fmt\<close>: the digits are produced from the least significant one, each
  put in front of those already there, and a minus sign goes first.
\<close>

definition digit :: "nat \<Rightarrow> char" where
  "digit d = ''0123456789'' ! d"

function fmt_digits :: "nat \<Rightarrow> string \<Rightarrow> string" where
  "fmt_digits u acc =
     (if 10 \<le> u then fmt_digits (u div 10) (digit (u - (u div 10) * 10) # acc)
      else digit u # acc)"
  by pat_completeness auto
termination
  by (relation "measure fst") auto

declare fmt_digits.simps [simp del]

definition fmt_d :: "int \<Rightarrow> string" where
  "fmt_d n = (if n < 0 then CHR ''-'' # fmt_digits (nat (- n)) [] else fmt_digits (nat n) [])"

text \<open>A \<^verbatim>\<open>bytes.Buffer\<close> is the bytes written to it so far.\<close>

type_synonym Buffer = string

definition new_Buffer :: Buffer where
  "new_Buffer = []"

definition WriteString :: "Buffer \<Rightarrow> string \<Rightarrow> Buffer" where
  "WriteString b str = b @ str"

definition Buffer_Write :: "Buffer \<Rightarrow> string \<Rightarrow> Buffer" where
  "Buffer_Write b p = b @ p"

text \<open>\<^verbatim>\<open>fmt.Fprintf\<close> with one verb, \<^verbatim>\<open>%d\<close> or \<^verbatim>\<open>%s\<close>, between two literal parts.\<close>

definition Fprintf_d :: "Buffer \<Rightarrow> string \<Rightarrow> int \<Rightarrow> string \<Rightarrow> Buffer" where
  "Fprintf_d b pre n post = b @ pre @ fmt_d n @ post"

definition Fprintf_s :: "Buffer \<Rightarrow> string \<Rightarrow> string \<Rightarrow> string \<Rightarrow> Buffer" where
  "Fprintf_s b pre str post = b @ pre @ str @ post"

definition CRLF :: string where
  "CRLF = [CHR 0x0D, CHR 0x0A]"

text \<open>
  Lines 89 to 105, the body of \<^verbatim>\<open>Write\<close> after the guard and the \<^verbatim>\<open>defer\<close>.
  \<open>wres\<close> is what \<^verbatim>\<open>buf.WriteTo(s.rwc)\<close> answers, the count and the error; the
  buffer is never empty, so \<^verbatim>\<open>WriteTo\<close> hands all of it to the connection's
  \<^verbatim>\<open>Write\<close> in one call.
\<close>

definition Write_body ::
  "string \<Rightarrow> int \<times> error option \<Rightarrow> world \<Rightarrow> (int \<times> error option) outcome \<times> world" where
  "Write_body p wres w =
     (let buf = new_Buffer;
          buf = WriteString buf (''HTTP/1.0 200 OK'' @ CRLF);
          buf = WriteString buf (''Content-Type: text/plain; charset=UTF-8'' @ CRLF);
          buf = Fprintf_d buf ''Content-Length: '' (int (length p)) CRLF
      in
        (case req (sock w) of
           None \<Rightarrow> (Panic NilDereference, w)
         | Some r \<Rightarrow>
             let origin = Header_Get (Header r) ''Origin'';
                 buf = (if origin \<noteq> [] then
                          WriteString
                            (Fprintf_s buf ''Access-Control-Allow-Origin: '' origin CRLF)
                            (''Access-Control-Allow-Credentials: true'' @ CRLF)
                        else buf);
                 buf = WriteString buf CRLF;
                 buf = Buffer_Write buf p
             in
               (case rwc (sock w) of
                  None \<Rightarrow> (Panic NilDereference, w)
                | Some c \<Rightarrow>
                    let (n, err) = wres in
                    (Return (int (length p), err),
                     w\<lparr>trace := trace w @ [ConnWrite c buf]\<rparr>))))"

text \<open>
  \<^verbatim>\<open>defer s.Close()\<close> runs when the body returns and when it panics; what it returns is
  dropped, and a panic of its own is the one that leaves \<^verbatim>\<open>Write\<close>.
\<close>

definition Write ::
  "string \<Rightarrow> int \<times> error option \<Rightarrow> error option \<Rightarrow> world
     \<Rightarrow> (int \<times> error option) outcome \<times> world" where
  "Write p wres cres w =
     (if \<not> connected (sock w) then (Return (0, Some ErrNotConnected), w)
      else
        let (r, w1) = Write_body p wres w;
            (rc, w2) = Close cres w1
        in (case rc of Panic k \<Rightarrow> (Panic k, w2) | Return _ \<Rightarrow> (r, w2)))"

subsection \<open>Reading a decimal numeral\<close>

text \<open>The number a string of decimal digits denotes, to say what \<^verbatim>\<open>%d\<close> prints.\<close>

definition is_digit :: "char \<Rightarrow> bool" where
  "is_digit ch = (ch \<in> set ''0123456789'')"



subsection \<open>An example exchange\<close>

text \<open>
  A socket of a transport with a read timeout of five seconds and no write timeout
  accepts a request with \<^verbatim>\<open>Origin: http://example.com\<close> over a TCP connection.
\<close>

definition example_request :: Request where
  "example_request = \<lparr>Header = [''Origin'' \<mapsto> [''http://example.com'']]\<rparr>"

definition example_transport :: xhrPollingTransport where
  "example_transport = NewXHRPollingTransport 5000000000 0"

definition example_conn :: conn where
  "example_conn = Conn 7 TCPConn"

definition example_fresh :: world where
  "example_fresh = \<lparr>sock = newSocket example_transport, trace = []\<rparr>"

definition example_accepted :: world where
  "example_accepted =
     snd (accept (Hijacker (Some example_conn) None) (Some example_request) id 100 101
            example_fresh)"

text \<open>
  The same exchange with a request that has no Origin header, and a connection that is
  not a \<^verbatim>\<open>*net.TCPConn\<close> (a TLS connection, say).
\<close>

definition example_plain_request :: Request where
  "example_plain_request = \<lparr>Header = Map.empty\<rparr>"

definition example_tls_conn :: conn where
  "example_tls_conn = Conn 8 OtherConn"

definition example_plain_accepted :: world where
  "example_plain_accepted =
     snd (accept (Hijacker (Some example_conn) None) (Some example_plain_request) id 100 101
            example_fresh)"

section \<open>Properties\<close>

subsection \<open>What \<^verbatim>\<open>%d\<close> prints\<close>

text \<open>
  The digits \<open>fmt_digits\<close> produces are decimal digits, they denote the number that
  was printed, and the first one is not a zero unless the number is zero.
\<close>


lemma fmt_digits_acc: "fmt_digits u acc = fmt_digits u [] @ acc"
proof (induction u arbitrary: acc rule: less_induct)
  case (less u)
  show ?case
  proof (cases "10 \<le> u")
    case True
    then have lt: "u div 10 < u" by simp
    have "fmt_digits u acc = fmt_digits (u div 10) (digit (u - (u div 10) * 10) # acc)"
      using True by (simp add: fmt_digits.simps [of u])
    also have "\<dots> = fmt_digits (u div 10) [] @ digit (u - (u div 10) * 10) # acc"
      by (rule less.IH [OF lt])
    also have "\<dots> = (fmt_digits (u div 10) [] @ [digit (u - (u div 10) * 10)]) @ acc"
      by simp
    also have "fmt_digits (u div 10) [] @ [digit (u - (u div 10) * 10)]
        = fmt_digits (u div 10) [digit (u - (u div 10) * 10)]"
      by (rule less.IH [OF lt, symmetric])
    also have "\<dots> = fmt_digits u []"
      using True by (simp add: fmt_digits.simps [of u])
    finally show ?thesis .
  next
    case False
    then show ?thesis by (simp add: fmt_digits.simps [of u])
  qed
qed

lemma fmt_digits_step:
  "10 \<le> u \<Longrightarrow> fmt_digits u [] = fmt_digits (u div 10) [] @ [digit (u mod 10)]"
proof -
  assume h: "10 \<le> u"
  have "u - (u div 10) * 10 = u mod 10"
    by (simp add: minus_div_mult_eq_mod)
  then have "fmt_digits u [] = fmt_digits (u div 10) [digit (u mod 10)]"
    using h by (simp add: fmt_digits.simps [of u])
  then show ?thesis
    using fmt_digits_acc [of "u div 10" "[digit (u mod 10)]"] by simp
qed

lemma fmt_digits_small: "u < 10 \<Longrightarrow> fmt_digits u [] = [digit u]"
  by (simp add: fmt_digits.simps [of u])

lemma lt10_cases:
  "(d::nat) < 10 \<Longrightarrow> d = 0 \<or> d = 1 \<or> d = 2 \<or> d = 3 \<or> d = 4 \<or> d = 5 \<or> d = 6 \<or> d = 7 \<or> d = 8 \<or> d = 9"
  by arith

lemma digit_is_digit: "d < 10 \<Longrightarrow> is_digit (digit d)"
  by (drule lt10_cases) (auto simp: is_digit_def digit_def)





lemma digits_fmt_digits: "list_all is_digit (fmt_digits u [])"
proof (induction u rule: less_induct)
  case (less u)
  show ?case
  proof (cases "10 \<le> u")
    case True
    then have "u div 10 < u" by simp
    then have "list_all is_digit (fmt_digits (u div 10) [])" by (rule less.IH)
    then show ?thesis
      using True by (simp add: fmt_digits_step digit_is_digit)
  next
    case False
    then show ?thesis
      by (simp add: fmt_digits_small digit_is_digit)
  qed
qed



lemma fmt_d_length: "fmt_d (int (length p)) = fmt_digits (length p) []"
  by (simp add: fmt_d_def)

subsection \<open>The example exchange, evaluated\<close>

lemma example_accepted_eq:
  "example_accepted =
     \<lparr>sock = \<lparr>s_t = \<lparr>rtimeout = 5000000000, wtimeout = 0\<rparr>, rwc = Some (Conn 7 TCPConn),
              req = Some example_request, connected = True\<rparr>,
      trace = [Hijack, SetReadDeadline (Conn 7 TCPConn) 5000000100]\<rparr>"
  by (simp add: example_accepted_def example_fresh_def example_transport_def
      example_conn_def accept_def newSocket_def NewXHRPollingTransport_def
      apply_rtimeout_def apply_wtimeout_def as_TCPConn_def Time_Add_def)

lemma example_origin: "Header_Get (Header example_request) ''Origin'' = ''http://example.com''"
  by (simp add: example_request_def Header_Get_def)


lemma fmt_d_2: "fmt_d 2 = ''2''"
  by (simp add: fmt_d_def fmt_digits.simps digit_def)

lemma example_fresh_eq:
  "example_fresh =
     \<lparr>sock = \<lparr>s_t = \<lparr>rtimeout = 5000000000, wtimeout = 0\<rparr>, rwc = None, req = None,
              connected = False\<rparr>,
      trace = []\<rparr>"
  by (simp add: example_fresh_def example_transport_def newSocket_def
      NewXHRPollingTransport_def)

lemma example_plain_accepted_eq:
  "example_plain_accepted =
     \<lparr>sock = \<lparr>s_t = \<lparr>rtimeout = 5000000000, wtimeout = 0\<rparr>, rwc = Some (Conn 7 TCPConn),
              req = Some example_plain_request, connected = True\<rparr>,
      trace = [Hijack, SetReadDeadline (Conn 7 TCPConn) 5000000100]\<rparr>"
  by (simp add: example_plain_accepted_def example_fresh_eq
      example_conn_def accept_def
      apply_rtimeout_def apply_wtimeout_def as_TCPConn_def Time_Add_def)

lemma example_plain_origin: "Header_Get (Header example_plain_request) ''Origin'' = []"
  by (simp add: example_plain_request_def Header_Get_def)

subsection \<open>The outcomes of accept\<close>

lemma accept_connected:
  "connected (sock w) \<Longrightarrow>
   accept hw rq proceed now_r now_w w = (Return (Some ErrConnected), w)"
  by (simp add: accept_def)

lemma accept_hijack_failed:
  "\<not> connected (sock w) \<Longrightarrow>
   accept (Hijacker c (Some e)) rq proceed now_r now_w w =
     (Return (Some e), w\<lparr>sock := (sock w)\<lparr>req := rq, rwc := c\<rparr>, trace := trace w @ [Hijack]\<rparr>)"
  by (simp add: accept_def)

lemma accept_not_hijacker:
  "\<not> connected (sock w) \<Longrightarrow>
   accept NotHijacker rq proceed now_r now_w w =
     (Panic TypeAssertion, w\<lparr>sock := (sock w)\<lparr>req := rq\<rparr>\<rparr>)"
  by (simp add: accept_def)

lemma accept_hijacked:
  assumes "\<not> connected (sock w)"
    and "conn_type k = TCPConn \<or> (rtimeout (s_t (sock w)) = 0 \<and> wtimeout (s_t (sock w)) = 0)"
  shows "accept (Hijacker (Some k) None) rq proceed now_r now_w w =
     (Return None,
      proceed (w\<lparr>sock := (sock w)\<lparr>req := rq, rwc := Some k, connected := True\<rparr>,
                 trace := trace w @ [Hijack] @
                   (if rtimeout (s_t (sock w)) \<noteq> 0
                    then [SetReadDeadline k (Time_Add now_r (rtimeout (s_t (sock w))))] else []) @
                   (if wtimeout (s_t (sock w)) \<noteq> 0
                    then [SetWriteDeadline k (Time_Add now_w (wtimeout (s_t (sock w))))] else [])\<rparr>))"
  using assms
  by (cases w) (auto simp: accept_def apply_rtimeout_def apply_wtimeout_def as_TCPConn_def)

lemma accept_type_assertion_panics:
  assumes "\<not> connected (sock w)"
    and "conn_type k \<noteq> TCPConn"
    and "rtimeout (s_t (sock w)) \<noteq> 0 \<or> wtimeout (s_t (sock w)) \<noteq> 0"
  shows "accept (Hijacker (Some k) None) rq proceed now_r now_w w =
     (Panic TypeAssertion,
      w\<lparr>sock := (sock w)\<lparr>req := rq, rwc := Some k\<rparr>, trace := trace w @ [Hijack]\<rparr>)"
  using assms
  by (cases "rtimeout (s_t (sock w)) = 0")
    (simp_all add: accept_def apply_rtimeout_def apply_wtimeout_def as_TCPConn_def Let_def)

subsection \<open>Write on a connected socket\<close>

text \<open>
  A connected socket holds the connection and the request that \<open>accept\<close> stored.
  On such a socket the body of \<open>Write\<close> and the deferred \<open>Close\<close> both return.
\<close>

lemma Write_body_connected:
  "rwc (sock w) = Some c \<Longrightarrow> req (sock w) = Some r \<Longrightarrow>
   Write_body p (n, err) w =
     (Return (int (length p), err),
      w\<lparr>trace := trace w @ [ConnWrite c
        (''HTTP/1.0 200 OK'' @ CRLF @ ''Content-Type: text/plain; charset=UTF-8'' @ CRLF @
         ''Content-Length: '' @ fmt_d (int (length p)) @ CRLF @
         (if Header_Get (Header r) ''Origin'' = [] then []
          else ''Access-Control-Allow-Origin: '' @ Header_Get (Header r) ''Origin'' @ CRLF @
               ''Access-Control-Allow-Credentials: true'' @ CRLF) @
         CRLF @ p)]\<rparr>)"
  by (simp add: Write_body_def new_Buffer_def WriteString_def Buffer_Write_def
      Fprintf_d_def Fprintf_s_def Let_def)

lemma Write_connected:
  assumes "connected (sock w)" and "rwc (sock w) = Some c" and "req (sock w) = Some r"
  shows "Write p (n, err) cres w =
     (Return (int (length p), err),
      w\<lparr>sock := (sock w)\<lparr>connected := False\<rparr>,
        trace := trace w @ [ConnWrite c
        (''HTTP/1.0 200 OK'' @ CRLF @ ''Content-Type: text/plain; charset=UTF-8'' @ CRLF @
         ''Content-Length: '' @ fmt_d (int (length p)) @ CRLF @
         (if Header_Get (Header r) ''Origin'' = [] then []
          else ''Access-Control-Allow-Origin: '' @ Header_Get (Header r) ''Origin'' @ CRLF @
               ''Access-Control-Allow-Credentials: true'' @ CRLF) @
         CRLF @ p), ConnClose c]\<rparr>)"
  using assms by (simp add: Write_def Write_body_connected Close_def)

lemma Write_body_sock: "sock (snd (Write_body p wres w)) = sock w"
  by (cases wres) (simp add: Write_body_def Let_def split: option.splits)

lemma Write_snd:
  "connected (sock w) \<Longrightarrow>
   snd (Write p wres cres w) = snd (Close cres (snd (Write_body p wres w)))"
  by (simp add: Write_def split: prod.splits outcome.splits)

lemma Close_disconnects: "\<not> connected (sock (snd (Close cres w)))"
  by (simp add: Close_def Let_def split: option.splits)

lemma Close_closes_conn:
  "connected (sock w) \<Longrightarrow> rwc (sock w) = Some c \<Longrightarrow>
   rwc (sock (snd (Close cres w))) = Some c \<and> last (trace (snd (Close cres w))) = ConnClose c"
  by (simp add: Close_def)

lemma Write_disconnects:
  "connected (sock w) \<Longrightarrow> \<not> connected (sock (snd (Write p wres cres w)))"
  by (simp add: Write_snd Close_disconnects)

lemma Write_closes_conn:
  "connected (sock w) \<Longrightarrow> rwc (sock w) = Some c \<Longrightarrow>
   rwc (sock (snd (Write p wres cres w))) = Some c
   \<and> last (trace (snd (Write p wres cres w))) = ConnClose c"
  by (simp add: Write_snd Close_closes_conn Write_body_sock)

lemma not_connected_ops:
  "\<not> connected (sock w) \<Longrightarrow>
   Read q rres w = (Return (q, 0, Some ErrNotConnected), w)
   \<and> Write q wres cres w = (Return (0, Some ErrNotConnected), w)
   \<and> Close cres w = (Return (Some ErrNotConnected), w)"
  by (simp add: Read_def Write_def Close_def)

subsection \<open>The headers of a response without CORS lines\<close>

text \<open>
  No capital A occurs in the status line, the Content-Type line and the Content-Length
  line, so no header whose name starts with \<^verbatim>\<open>Access-Control\<close> occurs there.
\<close>

lemma is_digit_not_A: "is_digit ch \<Longrightarrow> ch \<noteq> CHR ''A''"
  by (auto simp: is_digit_def)

lemma fmt_digits_no_A: "CHR ''A'' \<notin> set (fmt_digits u [])"
  using digits_fmt_digits [of u] is_digit_not_A
  by (auto simp: list_all_iff)

lemma plain_headers_no_A:
  "CHR ''A'' \<notin> set (''HTTP/1.0 200 OK'' @ CRLF @ ''Content-Type: text/plain; charset=UTF-8'' @
      CRLF @ ''Content-Length: '' @ fmt_d (int (length p)) @ CRLF @ CRLF)"
  using fmt_digits_no_A [of "length p"]
  by (simp add: fmt_d_length CRLF_def)

lemma sublist_needs_chars: "sublist xs ys \<Longrightarrow> ch \<in> set xs \<Longrightarrow> ch \<in> set ys"
  by (auto simp: sublist_def)

lemma Header_Get_empty_iff:
  "Header_Get h k = [] \<longleftrightarrow>
     h k = None \<or> h k = Some [] \<or> (\<exists>vs. h k = Some ([] # vs))"
  by (auto simp: Header_Get_def split: option.splits list.splits)

subsection \<open>The response that Write frames\<close>



text \<open>
  C3. On a connected socket whose request has the non-empty Origin value \<open>X\<close>, the
  response has, right after the Content-Length line and before the blank line, the line
  \<^verbatim>\<open>Access-Control-Allow-Origin: \<close>\<open>X\<close> and the line
  \<^verbatim>\<open>Access-Control-Allow-Credentials: true\<close>, with \<open>X\<close> as it came. When the Origin
  value is empty (no such header, no value, or an empty first value), the blank line
  follows the Content-Length line at once and neither header name occurs anywhere before
  the body.
\<close>

theorem Write_cors_lines:
  assumes "connected (sock w)" and "rwc (sock w) = Some c" and "req (sock w) = Some r"
  shows "(Header_Get (Header r) ''Origin'' \<noteq> [] \<longrightarrow>
            trace (snd (Write p wres cres w)) =
              trace w @ [ConnWrite c
                (''HTTP/1.0 200 OK'' @ CRLF @ ''Content-Type: text/plain; charset=UTF-8'' @ CRLF @
                 ''Content-Length: '' @ fmt_d (int (length p)) @ CRLF @
                 ''Access-Control-Allow-Origin: '' @ Header_Get (Header r) ''Origin'' @ CRLF @
                 ''Access-Control-Allow-Credentials: true'' @ CRLF @
                 CRLF @ p), ConnClose c])
     \<and> (Header_Get (Header r) ''Origin'' = [] \<longrightarrow>
            trace (snd (Write p wres cres w)) =
              trace w @ [ConnWrite c
                ((''HTTP/1.0 200 OK'' @ CRLF @ ''Content-Type: text/plain; charset=UTF-8'' @ CRLF @
                  ''Content-Length: '' @ fmt_d (int (length p)) @ CRLF @ CRLF) @ p), ConnClose c]
            \<and> \<not> sublist ''Access-Control-Allow-Origin''
                 (''HTTP/1.0 200 OK'' @ CRLF @ ''Content-Type: text/plain; charset=UTF-8'' @ CRLF @
                  ''Content-Length: '' @ fmt_d (int (length p)) @ CRLF @ CRLF)
            \<and> \<not> sublist ''Access-Control-Allow-Credentials''
                 (''HTTP/1.0 200 OK'' @ CRLF @ ''Content-Type: text/plain; charset=UTF-8'' @ CRLF @
                  ''Content-Length: '' @ fmt_d (int (length p)) @ CRLF @ CRLF))
     \<and> (Header_Get (Header r) ''Origin'' = [] \<longleftrightarrow>
            Header r ''Origin'' = None \<or> Header r ''Origin'' = Some []
            \<or> (\<exists>vs. Header r ''Origin'' = Some ([] # vs)))"
proof -
  obtain n err where wres: "wres = (n, err)" by (cases wres)
  have tr: "trace (snd (Write p wres cres w)) =
     trace w @ [ConnWrite c
        (''HTTP/1.0 200 OK'' @ CRLF @ ''Content-Type: text/plain; charset=UTF-8'' @ CRLF @
         ''Content-Length: '' @ fmt_d (int (length p)) @ CRLF @
         (if Header_Get (Header r) ''Origin'' = [] then []
          else ''Access-Control-Allow-Origin: '' @ Header_Get (Header r) ''Origin'' @ CRLF @
               ''Access-Control-Allow-Credentials: true'' @ CRLF) @
         CRLF @ p), ConnClose c]"
    unfolding wres by (simp add: Write_connected [OF assms])
  have no1: "\<not> sublist ''Access-Control-Allow-Origin''
      (''HTTP/1.0 200 OK'' @ CRLF @ ''Content-Type: text/plain; charset=UTF-8'' @ CRLF @
       ''Content-Length: '' @ fmt_d (int (length p)) @ CRLF @ CRLF)"
  proof
    assume "sublist ''Access-Control-Allow-Origin''
      (''HTTP/1.0 200 OK'' @ CRLF @ ''Content-Type: text/plain; charset=UTF-8'' @ CRLF @
       ''Content-Length: '' @ fmt_d (int (length p)) @ CRLF @ CRLF)"
    then have "CHR ''A'' \<in> set (''HTTP/1.0 200 OK'' @ CRLF @
       ''Content-Type: text/plain; charset=UTF-8'' @ CRLF @
       ''Content-Length: '' @ fmt_d (int (length p)) @ CRLF @ CRLF)"
      by (rule sublist_needs_chars) simp
    then show False using plain_headers_no_A [of p] by blast
  qed
  have no2: "\<not> sublist ''Access-Control-Allow-Credentials''
      (''HTTP/1.0 200 OK'' @ CRLF @ ''Content-Type: text/plain; charset=UTF-8'' @ CRLF @
       ''Content-Length: '' @ fmt_d (int (length p)) @ CRLF @ CRLF)"
  proof
    assume "sublist ''Access-Control-Allow-Credentials''
      (''HTTP/1.0 200 OK'' @ CRLF @ ''Content-Type: text/plain; charset=UTF-8'' @ CRLF @
       ''Content-Length: '' @ fmt_d (int (length p)) @ CRLF @ CRLF)"
    then have "CHR ''A'' \<in> set (''HTTP/1.0 200 OK'' @ CRLF @
       ''Content-Type: text/plain; charset=UTF-8'' @ CRLF @
       ''Content-Length: '' @ fmt_d (int (length p)) @ CRLF @ CRLF)"
      by (rule sublist_needs_chars) simp
    then show False using plain_headers_no_A [of p] by blast
  qed
  show ?thesis
    using tr no1 no2 Header_Get_empty_iff [of "Header r" "''Origin''"] by simp
qed

theorem Write_cors_lines_witness:
  "connected (sock example_accepted)
   \<and> rwc (sock example_accepted) = Some (Conn 7 TCPConn)
   \<and> req (sock example_accepted) = Some example_request
   \<and> Header_Get (Header example_request) ''Origin'' = ''http://example.com''
   \<and> trace (snd (Write ''hi'' (0, None) None example_accepted)) =
       [Hijack, SetReadDeadline (Conn 7 TCPConn) 5000000100,
        ConnWrite (Conn 7 TCPConn)
          (''HTTP/1.0 200 OK'' @ CRLF @ ''Content-Type: text/plain; charset=UTF-8'' @ CRLF @
           ''Content-Length: 2'' @ CRLF @
           ''Access-Control-Allow-Origin: http://example.com'' @ CRLF @
           ''Access-Control-Allow-Credentials: true'' @ CRLF @ CRLF @ ''hi''),
        ConnClose (Conn 7 TCPConn)]
   \<and> connected (sock example_plain_accepted)
   \<and> rwc (sock example_plain_accepted) = Some (Conn 7 TCPConn)
   \<and> req (sock example_plain_accepted) = Some example_plain_request
   \<and> Header_Get (Header example_plain_request) ''Origin'' = []
   \<and> trace (snd (Write ''hi'' (0, None) None example_plain_accepted)) =
       [Hijack, SetReadDeadline (Conn 7 TCPConn) 5000000100,
        ConnWrite (Conn 7 TCPConn)
          (''HTTP/1.0 200 OK'' @ CRLF @ ''Content-Type: text/plain; charset=UTF-8'' @ CRLF @
           ''Content-Length: 2'' @ CRLF @ CRLF @ ''hi''),
        ConnClose (Conn 7 TCPConn)]
   \<and> \<not> sublist ''Access-Control-Allow-Origin''
        (''HTTP/1.0 200 OK'' @ CRLF @ ''Content-Type: text/plain; charset=UTF-8'' @ CRLF @
         ''Content-Length: 2'' @ CRLF @ CRLF)"
  using Write_cors_lines [of example_accepted "Conn 7 TCPConn" example_request
      "''hi''" "(0, None)" None]
    Write_cors_lines [of example_plain_accepted "Conn 7 TCPConn" example_plain_request
      "''hi''" "(0, None)" None]
  by (simp add: example_accepted_eq example_plain_accepted_eq example_origin
      example_plain_origin fmt_d_2)

subsection \<open>Write closes the socket\<close>

text \<open>
  C2. On a connected socket that holds connection \<open>c\<close>, whatever the write and the
  close answer (and even when the body panics), after \<open>Write\<close> the socket is not
  connected, the last call made to the outside is the close of \<open>c\<close>, and a further
  Read, Write or Close returns ErrNotConnected and changes nothing.
\<close>

theorem Write_always_closes:
  assumes "connected (sock w)" and "rwc (sock w) = Some c"
  shows "\<not> connected (sock (snd (Write p wres cres w)))
     \<and> rwc (sock (snd (Write p wres cres w))) = Some c
     \<and> last (trace (snd (Write p wres cres w))) = ConnClose c
     \<and> Read q rres (snd (Write p wres cres w))
         = (Return (q, 0, Some ErrNotConnected), snd (Write p wres cres w))
     \<and> Write q' wres' cres' (snd (Write p wres cres w))
         = (Return (0, Some ErrNotConnected), snd (Write p wres cres w))
     \<and> Close cres'' (snd (Write p wres cres w))
         = (Return (Some ErrNotConnected), snd (Write p wres cres w))"
proof -
  have off: "\<not> connected (sock (snd (Write p wres cres w)))"
    by (rule Write_disconnects [OF assms(1)])
  show ?thesis
    using off Write_closes_conn [OF assms, of p wres cres]
    by (simp add: not_connected_ops [OF off])
qed

theorem Write_always_closes_witness:
  "connected (sock example_accepted)
   \<and> rwc (sock example_accepted) = Some (Conn 7 TCPConn)
   \<and> \<not> connected (sock (snd (Write ''hello'' (0, Some (ErrOther ''broken pipe'')) None
            example_accepted)))
   \<and> last (trace (snd (Write ''hello'' (0, Some (ErrOther ''broken pipe'')) None
            example_accepted))) = ConnClose (Conn 7 TCPConn)
   \<and> fst (Read ''buf'' (''xyz'', 3, None) (snd (Write ''hello'' (0, Some (ErrOther ''broken pipe'')) None
            example_accepted))) = Return (''buf'', 0, Some ErrNotConnected)
   \<and> fst (Write ''again'' (83, None) None (snd (Write ''hello'' (0, Some (ErrOther ''broken pipe'')) None
            example_accepted))) = Return (0, Some ErrNotConnected)
   \<and> fst (Close None (snd (Write ''hello'' (0, Some (ErrOther ''broken pipe'')) None
            example_accepted))) = Return (Some ErrNotConnected)"
  using Write_always_closes [where w = example_accepted and c = "Conn 7 TCPConn"
      and p = "''hello''" and wres = "(0, Some (ErrOther ''broken pipe''))" and cres = None
      and q = "''buf''" and rres = "(''xyz'', 3, None)" and q' = "''again''"
      and wres' = "(83, None)" and cres' = None and cres'' = None]
  by (simp add: example_accepted_eq)

text \<open>
  C4. On a connected socket, whatever count \<open>n\<close> and error \<open>err\<close> the write of the
  buffered response answers (all written, some written, none written), \<open>Write p\<close>
  returns the length of \<open>p\<close> paired with \<open>err\<close>.
\<close>

theorem Write_returns_payload_length:
  assumes "connected (sock w)" and "rwc (sock w) = Some c" and "req (sock w) = Some r"
  shows "fst (Write p (n, err) cres w) = Return (int (length p), err)"
  by (simp add: Write_connected [OF assms])

theorem Write_returns_payload_length_witness:
  "connected (sock example_accepted)
   \<and> rwc (sock example_accepted) = Some (Conn 7 TCPConn)
   \<and> req (sock example_accepted) = Some example_request
   \<and> fst (Write ''hello'' (17, Some (ErrOther ''short write'')) None example_accepted)
       = Return (5, Some (ErrOther ''short write''))"
  using Write_returns_payload_length [of example_accepted "Conn 7 TCPConn" example_request
      "''hello''" 17 "Some (ErrOther ''short write'')" None]
  by (simp add: example_accepted_eq)

text \<open>
  C10. On a connected socket the deferred \<open>Close\<close> runs on the world the body left and
  returns the connection's close error \<open>cres\<close>, yet the result of \<open>Write\<close> is the
  length of \<open>p\<close> paired with the error of the write alone: the close error is dropped.
\<close>

theorem Write_drops_close_error:
  assumes "connected (sock w)" and "rwc (sock w) = Some c" and "req (sock w) = Some r"
  shows "fst (Close cres (snd (Write_body p (n, err) w))) = Return cres
     \<and> fst (Write p (n, err) cres w) = Return (int (length p), err)
     \<and> snd (Write p (n, err) cres w) = snd (Close cres (snd (Write_body p (n, err) w)))"
  using assms
  by (simp add: Write_connected [OF assms] Write_body_connected Close_def)

theorem Write_drops_close_error_witness:
  "connected (sock example_accepted)
   \<and> rwc (sock example_accepted) = Some (Conn 7 TCPConn)
   \<and> req (sock example_accepted) = Some example_request
   \<and> fst (Close (Some (ErrOther ''close failed''))
        (snd (Write_body ''hello'' (78, None) example_accepted)))
       = Return (Some (ErrOther ''close failed''))
   \<and> fst (Write ''hello'' (78, None) (Some (ErrOther ''close failed'')) example_accepted)
       = Return (5, None)"
  using Write_drops_close_error [of example_accepted "Conn 7 TCPConn" example_request
      "Some (ErrOther ''close failed'')" "''hello''" 78 None]
  by (simp add: example_accepted_eq)

subsection \<open>Close\<close>

text \<open>
  C8. On a connected socket that holds connection \<open>c\<close>, \<open>Close\<close> marks the socket
  unconnected, closes \<open>c\<close> and returns what that close answers; a second \<open>Close\<close>
  returns ErrNotConnected and changes nothing.
\<close>

theorem Close_then_Close:
  assumes "connected (sock w)" and "rwc (sock w) = Some c"
  shows "Close cres w =
       (Return cres,
        w\<lparr>sock := (sock w)\<lparr>connected := False\<rparr>, trace := trace w @ [ConnClose c]\<rparr>)
     \<and> Close cres' (snd (Close cres w)) = (Return (Some ErrNotConnected), snd (Close cres w))"
  using assms by (simp add: Close_def)

theorem Close_then_Close_witness:
  "connected (sock example_accepted)
   \<and> rwc (sock example_accepted) = Some (Conn 7 TCPConn)
   \<and> fst (Close (Some (ErrOther ''reset'')) example_accepted) = Return (Some (ErrOther ''reset''))
   \<and> \<not> connected (sock (snd (Close (Some (ErrOther ''reset'')) example_accepted)))
   \<and> trace (snd (Close (Some (ErrOther ''reset'')) example_accepted))
       = [Hijack, SetReadDeadline (Conn 7 TCPConn) 5000000100, ConnClose (Conn 7 TCPConn)]
   \<and> fst (Close None (snd (Close (Some (ErrOther ''reset'')) example_accepted)))
       = Return (Some ErrNotConnected)"
  using Close_then_Close [of example_accepted "Conn 7 TCPConn" "Some (ErrOther ''reset'')" None]
  by (simp add: example_accepted_eq Close_def)

subsection \<open>accept\<close>

text \<open>
  C5. The claim: on an unconnected socket, when the hijack returns no error, \<open>accept\<close>
  stores the request, applies each deadline whose timeout is not zero, marks the socket
  connected, runs the continuation once and returns no error. The code fails it when a
  timeout is set and the hijacked connection is not a \<^verbatim>\<open>*net.TCPConn\<close>. Evaluated on
  a fresh socket of a transport with a read timeout of five seconds, with a hijack that
  returns such a connection and no error: the unchecked type assertion of line 62
  panics, so \<open>accept\<close> returns nothing; the request and the connection are stored, no
  deadline is set, the socket is not connected, the continuation (which would have
  added an event to the trace) has not run, and the hijacked connection is left open.
\<close>

theorem accept_non_TCP_panics:
  "\<not> connected (sock example_fresh)
   \<and> accept (Hijacker (Some example_tls_conn) None) (Some example_request)
        (\<lambda>v. v\<lparr>trace := trace v @ [ConnRead example_tls_conn 0]\<rparr>) 100 101 example_fresh =
       (Panic TypeAssertion,
        \<lparr>sock = \<lparr>s_t = \<lparr>rtimeout = 5000000000, wtimeout = 0\<rparr>, rwc = Some (Conn 8 OtherConn),
                 req = Some example_request, connected = False\<rparr>,
         trace = [Hijack]\<rparr>)
   \<and> fst (accept (Hijacker (Some example_tls_conn) None) (Some example_request)
        (\<lambda>v. v\<lparr>trace := trace v @ [ConnRead example_tls_conn 0]\<rparr>) 100 101 example_fresh)
       \<noteq> Return None"
  by (simp add: example_fresh_eq example_tls_conn_def accept_def apply_rtimeout_def
      as_TCPConn_def)

text \<open>
  C6. The claim: on a connected socket \<open>accept\<close> returns ErrConnected and changes
  nothing, and in particular two successive calls with a hijackable connection have the
  first succeed and the second rejected. The code fails the second part through the same
  unchecked type assertion. Evaluated on a fresh socket of a transport with a write
  timeout of three seconds, with hijacks that return a connection that is not a
  \<^verbatim>\<open>*net.TCPConn\<close> and no error: the first \<open>accept\<close> panics at line 65 and leaves the
  socket unconnected, and the second \<open>accept\<close> is not rejected with ErrConnected; it
  hijacks once more and panics as the first did.
\<close>

theorem accept_twice_non_TCP_panics:
  "accept (Hijacker (Some example_tls_conn) None) (Some example_request) id 100 101
      \<lparr>sock = newSocket (NewXHRPollingTransport 0 3000000000), trace = []\<rparr> =
     (Panic TypeAssertion,
      \<lparr>sock = \<lparr>s_t = \<lparr>rtimeout = 0, wtimeout = 3000000000\<rparr>, rwc = Some (Conn 8 OtherConn),
               req = Some example_request, connected = False\<rparr>,
       trace = [Hijack]\<rparr>)
   \<and> accept (Hijacker (Some example_tls_conn) None) (Some example_plain_request) id 200 201
      (snd (accept (Hijacker (Some example_tls_conn) None) (Some example_request) id 100 101
         \<lparr>sock = newSocket (NewXHRPollingTransport 0 3000000000), trace = []\<rparr>)) =
     (Panic TypeAssertion,
      \<lparr>sock = \<lparr>s_t = \<lparr>rtimeout = 0, wtimeout = 3000000000\<rparr>, rwc = Some (Conn 8 OtherConn),
               req = Some example_plain_request, connected = False\<rparr>,
       trace = [Hijack, Hijack]\<rparr>)
   \<and> fst (accept (Hijacker (Some example_tls_conn) None) (Some example_plain_request) id 200 201
      (snd (accept (Hijacker (Some example_tls_conn) None) (Some example_request) id 100 101
         \<lparr>sock = newSocket (NewXHRPollingTransport 0 3000000000), trace = []\<rparr>)))
       \<noteq> Return (Some ErrConnected)"
  by (simp add: example_tls_conn_def newSocket_def NewXHRPollingTransport_def accept_def
      apply_rtimeout_def apply_wtimeout_def as_TCPConn_def)

text \<open>
  C9. On an unconnected socket, an \<open>accept\<close> whose hijack fails with \<open>e\<close> returns
  \<open>e\<close> and leaves the request field holding the request it was given and the
  connection field holding what \<^verbatim>\<open>Hijack\<close> returned, while the connected flag stays
  false. The request is stored before the hijack is tried: when the response writer is
  no \<^verbatim>\<open>http.Hijacker\<close> at all, the panic leaves the request stored and nothing else
  changed.
\<close>

theorem accept_overwrites_on_failure:
  assumes "\<not> connected (sock w)"
  shows "accept (Hijacker c (Some e)) rq proceed now_r now_w w =
       (Return (Some e),
        w\<lparr>sock := (sock w)\<lparr>req := rq, rwc := c\<rparr>, trace := trace w @ [Hijack]\<rparr>)
     \<and> req (sock (snd (accept (Hijacker c (Some e)) rq proceed now_r now_w w))) = rq
     \<and> rwc (sock (snd (accept (Hijacker c (Some e)) rq proceed now_r now_w w))) = c
     \<and> \<not> connected (sock (snd (accept (Hijacker c (Some e)) rq proceed now_r now_w w)))
     \<and> accept NotHijacker rq proceed now_r now_w w =
       (Panic TypeAssertion, w\<lparr>sock := (sock w)\<lparr>req := rq\<rparr>\<rparr>)"
  using assms by (simp add: accept_hijack_failed accept_not_hijacker)

theorem accept_overwrites_on_failure_witness:
  "\<not> connected (sock (snd (Close None example_accepted)))
   \<and> req (sock (snd (Close None example_accepted))) = Some example_request
   \<and> rwc (sock (snd (Close None example_accepted))) = Some (Conn 7 TCPConn)
   \<and> fst (accept (Hijacker None (Some (ErrOther ''already hijacked''))) (Some example_plain_request)
        id 200 201 (snd (Close None example_accepted)))
       = Return (Some (ErrOther ''already hijacked''))
   \<and> req (sock (snd (accept (Hijacker None (Some (ErrOther ''already hijacked'')))
        (Some example_plain_request) id 200 201 (snd (Close None example_accepted)))))
       = Some example_plain_request
   \<and> rwc (sock (snd (accept (Hijacker None (Some (ErrOther ''already hijacked'')))
        (Some example_plain_request) id 200 201 (snd (Close None example_accepted)))))
       = None
   \<and> \<not> connected (sock (snd (accept (Hijacker None (Some (ErrOther ''already hijacked'')))
        (Some example_plain_request) id 200 201 (snd (Close None example_accepted)))))"
  using accept_overwrites_on_failure [of "snd (Close None example_accepted)" None
      "ErrOther ''already hijacked''" "Some example_plain_request" id 200 201]
  by (simp add: example_accepted_eq Close_def)

subsection \<open>Operations on a socket that was never accepted\<close>

text \<open>
  C7. On a freshly constructed socket, whatever the trace so far, Read, Write and Close
  each return ErrNotConnected, Read and Write with a count of 0, and the world (the
  socket, the trace of calls to any connection, and the caller's buffer) is what it was.
\<close>

theorem fresh_socket_not_connected:
  "Read p rres \<lparr>sock = newSocket tr, trace = es\<rparr>
     = (Return (p, 0, Some ErrNotConnected), \<lparr>sock = newSocket tr, trace = es\<rparr>)
   \<and> Write p wres cres \<lparr>sock = newSocket tr, trace = es\<rparr>
     = (Return (0, Some ErrNotConnected), \<lparr>sock = newSocket tr, trace = es\<rparr>)
   \<and> Close cres \<lparr>sock = newSocket tr, trace = es\<rparr>
     = (Return (Some ErrNotConnected), \<lparr>sock = newSocket tr, trace = es\<rparr>)"
  by (simp add: Read_def Write_def Close_def newSocket_def)

end
